theory Spec2Isabelle
  imports Complex_Main "HOL-Library.Multiset" "HOL-Library.Char_ord" "HOL-Library.List_Lexorder"
    "HOL-Library.Product_Lexorder" "HOL-Library.Word"
begin

section \<open>Data model: floating-point values, cells and data frames\<close>

text \<open>
  The notebook \<^verbatim>\<open>tfx_tabular_train_to_serve.ipynb\<close> works on pandas DataFrames. A numeric
  entry is an IEEE binary64 value: the model keeps the special values the source's unguarded
  division can produce or receive (NaN, the two infinities, the negative zero) and holds every
  other value as an exact rational (\<open>Fin 0\<close> is the positive zero). A missing entry is NaN,
  as in pandas.
\<close>

datatype flt = NaN | PInf | NInf | NZero | Fin rat

datatype cell = Num flt | Str string | Bln bool | Tensor "flt list"

datatype error =
    KeyError string
  | TypeError
  | ValueError
  | OutOfBoundsDatetime
  | IndexError
  | SchemaError string
  | NotFittedError
  | InsufficientDataError string
  | DimensionError
  | VersionMismatchError
  | CorruptArtifactError

text \<open>A DataFrame: the ordered column labels and the rows, each row one cell per column.\<close>

record dataframe =
  columns :: "string list"
  rows :: "cell list list"

definition wf_df :: "dataframe \<Rightarrow> bool" where
  "wf_df df = (distinct (columns df) \<and> list_all (\<lambda>r. length r = length (columns df)) (rows df))"

definition value_at :: "string list \<Rightarrow> cell list \<Rightarrow> string \<Rightarrow> cell" where
  "value_at cols r c = (case map_of (zip cols r) c of Some v \<Rightarrow> v | None \<Rightarrow> Num NaN)"

text \<open>\<^verbatim>\<open>df[c]\<close>: the column as a list, KeyError when the label is absent.\<close>

definition get_col :: "dataframe \<Rightarrow> string \<Rightarrow> error + cell list" where
  "get_col df c =
     (if c \<in> set (columns df) then Inr (map (\<lambda>r. value_at (columns df) r c) (rows df))
      else Inl (KeyError c))"

text \<open>\<^verbatim>\<open>df[c] = values\<close>: overwrite the column in place when it exists, append it otherwise.\<close>

definition set_field :: "string list \<Rightarrow> string \<Rightarrow> cell \<Rightarrow> cell list \<Rightarrow> cell list" where
  "set_field cols c v r =
     (if c \<in> set cols then map (\<lambda>(k, x). if k = c then v else x) (zip cols r) else r @ [v])"

definition set_col :: "dataframe \<Rightarrow> string \<Rightarrow> cell list \<Rightarrow> dataframe" where
  "set_col df c vs =
     \<lparr>columns = (if c \<in> set (columns df) then columns df else columns df @ [c]),
      rows = map (\<lambda>(r, v). set_field (columns df) c v r) (zip (rows df) vs)\<rparr>"

text \<open>\<^verbatim>\<open>df.drop(cs, axis=1)\<close>: KeyError when a label to drop is absent.\<close>

definition drop_fields :: "string list \<Rightarrow> string list \<Rightarrow> cell list \<Rightarrow> cell list" where
  "drop_fields cols cs r = map snd (filter (\<lambda>(k, x). k \<notin> set cs) (zip cols r))"

definition drop_cols :: "dataframe \<Rightarrow> string list \<Rightarrow> error + dataframe" where
  "drop_cols df cs =
     (case filter (\<lambda>c. c \<notin> set (columns df)) cs of
        c # _ \<Rightarrow> Inl (KeyError c)
      | [] \<Rightarrow> Inr \<lparr>columns = filter (\<lambda>k. k \<notin> set cs) (columns df),
                  rows = map (drop_fields (columns df) cs) (rows df)\<rparr>)"

text \<open>\<^verbatim>\<open>df[cs]\<close> with a list of labels: the sub-frame of these columns, in the order given.\<close>

definition select_cols :: "dataframe \<Rightarrow> string list \<Rightarrow> error + dataframe" where
  "select_cols df cs =
     (case filter (\<lambda>c. c \<notin> set (columns df)) cs of
        c # _ \<Rightarrow> Inl (KeyError c)
      | [] \<Rightarrow> Inr \<lparr>columns = cs,
                  rows = map (\<lambda>r. map (value_at (columns df) r) cs) (rows df)\<rparr>)"

section \<open>Floating-point division and comparison\<close>

definition is_inf :: "flt \<Rightarrow> bool" where
  "is_inf x = (x = PInf \<or> x = NInf)"

definition is_zero :: "flt \<Rightarrow> bool" where
  "is_zero x = (x = NZero \<or> x = Fin 0)"

definition rat_of :: "flt \<Rightarrow> rat" where
  "rat_of x = (case x of Fin q \<Rightarrow> q | _ \<Rightarrow> 0)"

definition sign_bit :: "flt \<Rightarrow> bool" where
  "sign_bit x = (case x of NInf \<Rightarrow> True | NZero \<Rightarrow> True | Fin q \<Rightarrow> q < 0 | _ \<Rightarrow> False)"

definition signed_inf :: "bool \<Rightarrow> flt" where
  "signed_inf s = (if s then NInf else PInf)"

definition signed_zero :: "bool \<Rightarrow> flt" where
  "signed_zero s = (if s then NZero else Fin 0)"

text \<open>
  IEEE 754 division. \<open>rnd\<close> rounds the exact quotient of two finite non-zero values to
  binary64 (it may overflow to an infinity or underflow to a zero); it is a parameter, and
  every theorem holds for each rounding.
\<close>

definition fdiv :: "(rat \<Rightarrow> flt) \<Rightarrow> flt \<Rightarrow> flt \<Rightarrow> flt" where
  "fdiv rnd x y =
     (if x = NaN \<or> y = NaN then NaN
      else if is_inf x then (if is_inf y then NaN else signed_inf (sign_bit x \<noteq> sign_bit y))
      else if is_inf y then signed_zero (sign_bit x \<noteq> sign_bit y)
      else if is_zero y then (if is_zero x then NaN else signed_inf (sign_bit x \<noteq> sign_bit y))
      else if is_zero x then signed_zero (sign_bit x \<noteq> sign_bit y)
      else rnd (rat_of x / rat_of y))"

text \<open>The binary64 value of the literal \<^verbatim>\<open>0.2\<close>.\<close>

definition double_0_2 :: rat where
  "double_0_2 = 3602879701896397 / 18014398509481984"

text \<open>\<^verbatim>\<open>x > y\<close> on floats: every comparison with NaN is false, the two zeros are equal.\<close>

definition fgt :: "flt \<Rightarrow> flt \<Rightarrow> bool" where
  "fgt x y =
     (if x = NaN \<or> y = NaN then False
      else if x = PInf then y \<noteq> PInf
      else if y = NInf then x \<noteq> NInf
      else if x = NInf \<or> y = PInf then False
      else rat_of y < rat_of x)"

text \<open>Elementwise \<^verbatim>\<open>a / b\<close> of two columns; a non-numeric entry raises TypeError.\<close>

fun series_div :: "(rat \<Rightarrow> flt) \<Rightarrow> cell list \<Rightarrow> cell list \<Rightarrow> error + flt list" where
  "series_div rnd (Num x # xs) (Num y # ys) =
     (case series_div rnd xs ys of Inl e \<Rightarrow> Inl e | Inr qs \<Rightarrow> Inr (fdiv rnd x y # qs))"
| "series_div rnd [] [] = Inr []"
| "series_div rnd xs ys = Inl TypeError"

section \<open>Getting the data: \<^verbatim>\<open>get_data\<close>\<close>

definition LABEL :: string where
  "LABEL = ''is_big_tip''"

definition dropped_columns :: "string list" where
  "dropped_columns =
     [''tips'', ''fare'', ''dropoff_latitude'', ''dropoff_longitude'', ''pickup_latitude'',
      ''pickup_longitude'', ''pickup_census_tract'']"

text \<open>
  \<^verbatim>\<open>get_data\<close>, with the frame that \<^verbatim>\<open>pd.read_csv\<close> returns as the argument \<open>csv\<close>:
  \<^verbatim>\<open>_data[LABEL] = _data["tips"] / _data["fare"] > 0.2\<close>, then the drop of seven columns.
\<close>

definition get_data :: "(rat \<Rightarrow> flt) \<Rightarrow> dataframe \<Rightarrow> error + dataframe" where
  "get_data rnd csv =
     (case get_col csv ''tips'' of Inl e \<Rightarrow> Inl e | Inr tips \<Rightarrow>
     (case get_col csv ''fare'' of Inl e \<Rightarrow> Inl e | Inr fare \<Rightarrow>
     (case series_div rnd tips fare of Inl e \<Rightarrow> Inl e | Inr ratio \<Rightarrow>
        drop_cols (set_col csv LABEL (map (\<lambda>q. Bln (fgt q (Fin double_0_2))) ratio))
          dropped_columns)))"

section \<open>The terminal packing transform: \<^verbatim>\<open>concat_for_tensor\<close>\<close>

text \<open>
  \<^verbatim>\<open>to_numpy(dtype=np.float32)\<close> on one entry: numbers and booleans convert, text does not
  (\<open>Str\<close> holds non-numeric text). The value is kept exact: the rounding to the 24-bit
  significand changes neither the width of the vector nor whether the conversion fails.
\<close>

fun to_float32 :: "cell \<Rightarrow> error + flt" where
  "to_float32 (Num x) = Inr x"
| "to_float32 (Bln b) = Inr (Fin (if b then 1 else 0))"
| "to_float32 (Str s) = Inl ValueError"
| "to_float32 (Tensor v) = Inl ValueError"

fun traverse :: "('a \<Rightarrow> error + 'b) \<Rightarrow> 'a list \<Rightarrow> error + 'b list" where
  "traverse f [] = Inr []"
| "traverse f (x # xs) =
     (case f x of Inl e \<Rightarrow> Inl e
      | Inr y \<Rightarrow> (case traverse f xs of Inl e \<Rightarrow> Inl e | Inr ys \<Rightarrow> Inr (y # ys)))"

definition to_numpy :: "dataframe \<Rightarrow> error + flt list list" where
  "to_numpy df = traverse (traverse to_float32) (rows df)"

definition INPUT_SIZE :: nat where
  "INPUT_SIZE = 120"

definition feature_cols :: "dataframe \<Rightarrow> string list" where
  "feature_cols df = filter (\<lambda>col. col \<noteq> LABEL) (columns df)"

definition concat_for_tensor :: "dataframe \<Rightarrow> error + dataframe" where
  "concat_for_tensor df =
     (case select_cols df (feature_cols df) of Inl e \<Rightarrow> Inl e | Inr feats \<Rightarrow>
     (case to_numpy feats of Inl e \<Rightarrow> Inl e | Inr arr \<Rightarrow>
     (case get_col df LABEL of Inl e \<Rightarrow> Inl e | Inr lab \<Rightarrow>
        Inr \<lparr>columns = [''input'', LABEL],
             rows = map (\<lambda>(v, l). [Tensor v, l]) (zip arr lab)\<rparr>)))"

section \<open>Splitting the data and building requests\<close>




section \<open>The derived-column transform: \<^verbatim>\<open>batch_mapper_fn\<close>\<close>

text \<open>The proleptic Gregorian year of a day count from 1970-01-01.\<close>

definition day_of_year :: "int \<Rightarrow> int \<Rightarrow> int" where
  "day_of_year doe yoe = doe - (365 * yoe + yoe div 4 - yoe div 100)"

definition year_of_era :: "int \<Rightarrow> int" where
  "year_of_era doe = (doe - doe div 1460 + doe div 36524 - doe div 146096) div 365"

definition civil_year :: "int \<Rightarrow> int \<Rightarrow> int \<Rightarrow> int" where
  "civil_year era doe yoe =
     yoe + era * 400 + (if (5 * day_of_year doe yoe + 2) div 153 < 10 then 0 else 1)"

definition year_of_days :: "int \<Rightarrow> int" where
  "year_of_days d =
     civil_year ((d + 719468) div 146097) ((d + 719468) mod 146097)
       (year_of_era ((d + 719468) mod 146097))"

text \<open>The whole days in a number of seconds: the floor of \<open>q / 86400\<close>.\<close>

definition days_of_seconds :: "rat \<Rightarrow> int" where
  "days_of_seconds q = (case quotient_of q of (n, d) \<Rightarrow> n div (d * 86400))"

text \<open>
  \<^verbatim>\<open>pd.to_datetime(x, unit="s").dt.year\<close> on one entry: a missing entry stays missing, a number
  of seconds outside the 64-bit nanosecond clock raises, text and booleans do not convert.
\<close>

definition ns_bound :: rat where
  "ns_bound = 9223372036854775807 / 1000000000"

fun to_year :: "cell \<Rightarrow> error + cell" where
  "to_year (Num NaN) = Inr (Num NaN)"
| "to_year (Num NZero) = Inr (Num (Fin 1970))"
| "to_year (Num (Fin q)) =
     (if - ns_bound \<le> q \<and> q \<le> ns_bound
      then Inr (Num (Fin (of_int (year_of_days (days_of_seconds q)))))
      else Inl OutOfBoundsDatetime)"
| "to_year (Num PInf) = Inl OutOfBoundsDatetime"
| "to_year (Num NInf) = Inl OutOfBoundsDatetime"
| "to_year (Str s) = Inl ValueError"
| "to_year (Bln b) = Inl TypeError"
| "to_year (Tensor v) = Inl TypeError"

definition batch_mapper_fn :: "dataframe \<Rightarrow> error + dataframe" where
  "batch_mapper_fn df =
     (case get_col df ''trip_start_timestamp'' of Inl e \<Rightarrow> Inl e | Inr ts \<Rightarrow>
     (case traverse to_year ts of Inl e \<Rightarrow> Inl e | Inr years \<Rightarrow>
        drop_cols (set_col df ''trip_start_year'' years) [''trip_start_timestamp'']))"

section \<open>The chain of preprocessors: \<^verbatim>\<open>get_preprocessor\<close>\<close>

datatype strategy = Most_frequent | Mean

datatype udf = Batch_mapper_fn | Concat_for_tensor

text \<open>
  A preprocessor: its constructor arguments as in the notebook, and for the two fit-then-map
  kinds the fitted state (absent until fit): the fill value of each column for an imputer, the
  retained categories of each column, in index order, for the encoder.
\<close>

datatype transform =
    SimpleImputer "string list" strategy "(string \<times> cell) list option"
  | OneHotEncoder "string list" "(string \<times> nat) list" "(string \<times> cell list) list option"
  | BatchMapper udf









fun run_udf :: "udf \<Rightarrow> dataframe \<Rightarrow> error + dataframe" where
  "run_udf Batch_mapper_fn df = batch_mapper_fn df"
| "run_udf Concat_for_tensor df = concat_for_tensor df"

section \<open>The preprocessors of the library: apply\<close>

text \<open>
  Modelled from the spec: \<^verbatim>\<open>SimpleImputer\<close>, \<^verbatim>\<open>OneHotEncoder\<close> and \<^verbatim>\<open>Chain\<close> of
  \<^verbatim>\<open>ray.data.preprocessors\<close> are not among the sources. Their apply follows the Transform
  contract: NotFittedError when the fitted state is absent, SchemaError when a declared column is
  absent from the batch; the imputer replaces missing values with the fitted value and passes
  every other value through; the encoder produces one binary indicator column per retained
  category plus an "other" column, which takes every value that is not retained.
\<close>

definition is_missing :: "cell \<Rightarrow> bool" where
  "is_missing x = (x = Num NaN)"

definition first_absent :: "string list \<Rightarrow> string list \<Rightarrow> string option" where
  "first_absent cs cols = (case filter (\<lambda>c. c \<notin> set cols) cs of [] \<Rightarrow> None | c # _ \<Rightarrow> Some c)"

definition impute_row :: "string list \<Rightarrow> (string \<times> cell) list \<Rightarrow> string list \<Rightarrow> cell list \<Rightarrow> cell list" where
  "impute_row cs fills cols r =
     map (\<lambda>(k, x). if k \<in> set cs \<and> is_missing x
                    then (case map_of fills k of Some v \<Rightarrow> v | None \<Rightarrow> x) else x)
       (zip cols r)"

definition apply_imputer :: "string list \<Rightarrow> (string \<times> cell) list \<Rightarrow> dataframe \<Rightarrow> error + dataframe" where
  "apply_imputer cs fills df =
     (case first_absent cs (columns df) of
        Some c \<Rightarrow> Inl (SchemaError c)
      | None \<Rightarrow> Inr \<lparr>columns = columns df, rows = map (impute_row cs fills (columns df)) (rows df)\<rparr>)"

fun show_nat :: "nat \<Rightarrow> string" where
  "show_nat n =
     (if n < 10 then [''0123456789'' ! n] else show_nat (n div 10) @ [''0123456789'' ! (n mod 10)])"

declare show_nat.simps [simp del]

definition show_int :: "int \<Rightarrow> string" where
  "show_int i = (if i < 0 then ''-'' @ show_nat (nat (- i)) else show_nat (nat i))"

definition show_rat :: "rat \<Rightarrow> string" where
  "show_rat q =
     (case quotient_of q of (n, d) \<Rightarrow>
        if d = 1 then show_int n else show_int n @ ''/'' @ show_int d)"

fun cell_name :: "cell \<Rightarrow> string" where
  "cell_name (Str s) = s"
| "cell_name (Bln b) = (if b then ''True'' else ''False'')"
| "cell_name (Num NaN) = ''nan''"
| "cell_name (Num PInf) = ''inf''"
| "cell_name (Num NInf) = ''-inf''"
| "cell_name (Num NZero) = ''-0''"
| "cell_name (Num (Fin q)) = show_rat q"
| "cell_name (Tensor v) = ''tensor''"

definition indicator :: "bool \<Rightarrow> cell" where
  "indicator b = Num (Fin (if b then 1 else 0))"

text \<open>The indicators of one value: one per retained category, then "other".\<close>

definition indicators :: "cell list \<Rightarrow> cell \<Rightarrow> cell list" where
  "indicators cats v = map (\<lambda>k. indicator (v = k)) cats @ [indicator (v \<notin> set cats)]"

definition indicator_names :: "string \<Rightarrow> cell list \<Rightarrow> string list" where
  "indicator_names c cats = map (\<lambda>k. c @ ''_'' @ cell_name k) cats @ [c @ ''_other'']"

definition encode_columns :: "(string \<times> cell list) list \<Rightarrow> string list \<Rightarrow> string list" where
  "encode_columns table cols =
     filter (\<lambda>k. k \<notin> set (map fst table)) cols
     @ concat (map (\<lambda>(c, cats). indicator_names c cats) table)"

definition encode_row :: "(string \<times> cell list) list \<Rightarrow> string list \<Rightarrow> cell list \<Rightarrow> cell list" where
  "encode_row table cols r =
     map snd (filter (\<lambda>(k, x). k \<notin> set (map fst table)) (zip cols r))
     @ concat (map (\<lambda>(c, cats). indicators cats (value_at cols r c)) table)"

definition apply_encoder ::
  "string list \<Rightarrow> (string \<times> cell list) list \<Rightarrow> dataframe \<Rightarrow> error + dataframe" where
  "apply_encoder cs table df =
     (case first_absent (cs @ map fst table) (columns df) of
        Some c \<Rightarrow> Inl (SchemaError c)
      | None \<Rightarrow> Inr \<lparr>columns = encode_columns table (columns df),
                     rows = map (encode_row table (columns df)) (rows df)\<rparr>)"

fun apply_transform :: "transform \<Rightarrow> dataframe \<Rightarrow> error + dataframe" where
  "apply_transform (SimpleImputer cs strat None) df = Inl NotFittedError"
| "apply_transform (SimpleImputer cs strat (Some fills)) df = apply_imputer cs fills df"
| "apply_transform (OneHotEncoder cs caps None) df = Inl NotFittedError"
| "apply_transform (OneHotEncoder cs caps (Some table)) df = apply_encoder cs table df"
| "apply_transform (BatchMapper f) df = run_udf f df"

text \<open>The chain runs every transform in sequence and surfaces the first failure.\<close>

fun apply_chain :: "transform list \<Rightarrow> dataframe \<Rightarrow> error + dataframe" where
  "apply_chain [] df = Inr df"
| "apply_chain (t # ts) df =
     (case apply_transform t df of Inl e \<Rightarrow> Inl e | Inr df' \<Rightarrow> apply_chain ts df')"




section \<open>A canonical order of values\<close>

text \<open>
  Ties between equally frequent values are resolved in a fixed order of the values: the floats in
  numeric order (the negative zero just below the positive one, NaN last), booleans before
  numbers before text before vectors, text and vectors lexicographically.
\<close>

definition flt_key :: "flt \<Rightarrow> nat \<times> rat \<times> nat" where
  "flt_key x =
     (case x of NInf \<Rightarrow> (0, 0, 0) | NZero \<Rightarrow> (1, 0, 0) | Fin q \<Rightarrow> (1, q, 1)
      | PInf \<Rightarrow> (2, 0, 0) | NaN \<Rightarrow> (3, 0, 0))"

instantiation flt :: linorder
begin

definition less_eq_flt :: "flt \<Rightarrow> flt \<Rightarrow> bool" where
  "less_eq_flt x y = (flt_key x \<le> flt_key y)"

definition less_flt :: "flt \<Rightarrow> flt \<Rightarrow> bool" where
  "less_flt x y = (flt_key x < flt_key y)"

instance
proof
  fix x y z :: flt
  show "(x < y) = (x \<le> y \<and> \<not> y \<le> x)"
    unfolding less_eq_flt_def less_flt_def by (rule less_le_not_le)
  show "x \<le> x" unfolding less_eq_flt_def by simp
  show "x \<le> y \<Longrightarrow> y \<le> z \<Longrightarrow> x \<le> z" unfolding less_eq_flt_def by (rule order_trans)
  show "x \<le> y \<or> y \<le> x" unfolding less_eq_flt_def by (rule linear)
  have "flt_key x = flt_key y \<Longrightarrow> x = y"
    by (cases x; cases y) (simp_all add: flt_key_def)
  then show "x \<le> y \<Longrightarrow> y \<le> x \<Longrightarrow> x = y"
    unfolding less_eq_flt_def by (simp add: order_antisym)
qed

end

definition cell_key :: "cell \<Rightarrow> nat \<times> flt list \<times> string \<times> bool" where
  "cell_key c =
     (case c of Bln b \<Rightarrow> (0, [], [], b) | Num x \<Rightarrow> (1, [x], [], False)
      | Str s \<Rightarrow> (2, [], s, False) | Tensor v \<Rightarrow> (3, v, [], False))"

instantiation cell :: linorder
begin

definition less_eq_cell :: "cell \<Rightarrow> cell \<Rightarrow> bool" where
  "less_eq_cell x y = (cell_key x \<le> cell_key y)"

definition less_cell :: "cell \<Rightarrow> cell \<Rightarrow> bool" where
  "less_cell x y = (cell_key x < cell_key y)"

instance
proof
  fix x y z :: cell
  show "(x < y) = (x \<le> y \<and> \<not> y \<le> x)"
    unfolding less_eq_cell_def less_cell_def by (rule less_le_not_le)
  show "x \<le> x" unfolding less_eq_cell_def by simp
  show "x \<le> y \<Longrightarrow> y \<le> z \<Longrightarrow> x \<le> z" unfolding less_eq_cell_def by (rule order_trans)
  show "x \<le> y \<or> y \<le> x" unfolding less_eq_cell_def by (rule linear)
  have "cell_key x = cell_key y \<Longrightarrow> x = y"
    by (cases x; cases y) (simp_all add: cell_key_def)
  then show "x \<le> y \<Longrightarrow> y \<le> x \<Longrightarrow> x = y"
    unfolding less_eq_cell_def by (simp add: order_antisym)
qed

end

section \<open>The preprocessors of the library: fit\<close>

text \<open>
  Modelled from the spec: the fit of \<^verbatim>\<open>SimpleImputer\<close>, \<^verbatim>\<open>OneHotEncoder\<close> and \<^verbatim>\<open>Chain\<close> and
  the distributed aggregation behind it are not among the sources. Each worker computes the
  partial statistics of its partition for every declared column: the value-count table of the
  entries that are not missing, and the running sum and count of the numeric ones. The reduction
  merges partial statistics pairwise: count tables summed entrywise, sums and counts summed.
  The arithmetic is exact.
\<close>

record col_stats =
  value_counts :: "cell multiset"
  total :: rat
  observed :: nat

fun numeric_value :: "cell \<Rightarrow> rat option" where
  "numeric_value (Num (Fin q)) = Some q"
| "numeric_value (Num NZero) = Some 0"
| "numeric_value c = None"

definition local_stats :: "cell list \<Rightarrow> col_stats" where
  "local_stats xs =
     \<lparr>value_counts = mset (filter (\<lambda>x. \<not> is_missing x) xs),
      total = sum_list (List.map_filter numeric_value xs),
      observed = length (List.map_filter numeric_value xs)\<rparr>"

definition merge_stats :: "col_stats \<Rightarrow> col_stats \<Rightarrow> col_stats" where
  "merge_stats a b =
     \<lparr>value_counts = value_counts a + value_counts b,
      total = total a + total b,
      observed = observed a + observed b\<rparr>"

definition partition_stats :: "string list \<Rightarrow> dataframe \<Rightarrow> error + col_stats list" where
  "partition_stats cs df =
     (case first_absent cs (columns df) of
        Some c \<Rightarrow> Inl (SchemaError c)
      | None \<Rightarrow> Inr (map (\<lambda>c. local_stats (map (\<lambda>r. value_at (columns df) r c) (rows df))) cs))"

text \<open>
  A dataset spread over workers, together with the tree along which the partial statistics
  are reduced: a leaf is one worker's partition, a node merges the results of its two subtrees.
\<close>

datatype partitioning = Part dataframe | Merge partitioning partitioning

fun reduce_stats :: "string list \<Rightarrow> partitioning \<Rightarrow> error + col_stats list" where
  "reduce_stats cs (Part df) = partition_stats cs df"
| "reduce_stats cs (Merge l r) =
     (case reduce_stats cs l of Inl e \<Rightarrow> Inl e | Inr a \<Rightarrow>
     (case reduce_stats cs r of Inl e \<Rightarrow> Inl e | Inr b \<Rightarrow>
        Inr (map (\<lambda>(x, y). merge_stats x y) (zip a b))))"



text \<open>
  The observed values ranked by descending frequency, equally frequent values in the canonical
  order. The most frequent value is the first of the ranking; the encoder retains the first
  values of the ranking up to the cap of the column (all of them without a cap).
\<close>

definition ranked_categories :: "cell multiset \<Rightarrow> cell list" where
  "ranked_categories M =
     sort_key (\<lambda>v. (- int (count M v), v)) (sorted_list_of_set (set_mset M))"

definition most_frequent :: "cell multiset \<Rightarrow> cell option" where
  "most_frequent M = (case ranked_categories M of [] \<Rightarrow> None | v # _ \<Rightarrow> Some v)"

definition retained_categories :: "nat option \<Rightarrow> cell multiset \<Rightarrow> cell list" where
  "retained_categories cap M =
     (case cap of None \<Rightarrow> ranked_categories M | Some k \<Rightarrow> take k (ranked_categories M))"

definition fitted_mean :: "col_stats \<Rightarrow> cell option" where
  "fitted_mean st =
     (if observed st = 0 then None else Some (Num (Fin (total st / of_nat (observed st)))))"

text \<open>A column without any observed value makes the fit fail with InsufficientDataError.\<close>

definition fit_imputer_column :: "strategy \<Rightarrow> string \<times> col_stats \<Rightarrow> error + string \<times> cell" where
  "fit_imputer_column strat p =
     (case (case strat of Most_frequent \<Rightarrow> most_frequent (value_counts (snd p))
                        | Mean \<Rightarrow> fitted_mean (snd p)) of
        None \<Rightarrow> Inl (InsufficientDataError (fst p))
      | Some v \<Rightarrow> Inr (fst p, v))"

definition fit_encoder_column ::
  "(string \<times> nat) list \<Rightarrow> string \<times> col_stats \<Rightarrow> error + string \<times> cell list" where
  "fit_encoder_column caps p =
     (if value_counts (snd p) = {#} then Inl (InsufficientDataError (fst p))
      else Inr (fst p, retained_categories (map_of caps (fst p)) (value_counts (snd p))))"

text \<open>The entries of a column, its observed numeric values and its table of observed values.\<close>

definition column_values :: "dataframe \<Rightarrow> string \<Rightarrow> cell list" where
  "column_values df c = map (\<lambda>r. value_at (columns df) r c) (rows df)"

definition observed_numbers :: "dataframe \<Rightarrow> string \<Rightarrow> rat list" where
  "observed_numbers df c = List.map_filter numeric_value (column_values df c)"

definition category_counts :: "dataframe \<Rightarrow> string \<Rightarrow> cell multiset" where
  "category_counts df c = mset (filter (\<lambda>x. \<not> is_missing x) (column_values df c))"

text \<open>Fit of one transform: only an unfit transform is fit; a fit or stateless one is left as it is.\<close>

fun fit_transform :: "transform \<Rightarrow> partitioning \<Rightarrow> error + transform" where
  "fit_transform (SimpleImputer cs strat None) t =
     (case reduce_stats cs t of Inl e \<Rightarrow> Inl e | Inr sts \<Rightarrow>
     (case traverse (fit_imputer_column strat) (zip cs sts) of Inl e \<Rightarrow> Inl e
      | Inr fills \<Rightarrow> Inr (SimpleImputer cs strat (Some fills))))"
| "fit_transform (OneHotEncoder cs caps None) t =
     (case reduce_stats cs t of Inl e \<Rightarrow> Inl e | Inr sts \<Rightarrow>
     (case traverse (fit_encoder_column caps) (zip cs sts) of Inl e \<Rightarrow> Inl e
      | Inr table \<Rightarrow> Inr (OneHotEncoder cs caps (Some table))))"
| "fit_transform x t = Inr x"



section \<open>The artifact: serialization of a pipeline with the model weights\<close>

text \<open>
  Modelled from the spec: the checkpoint's serialization (\<^verbatim>\<open>ray.air.Checkpoint\<close>) is not among
  the sources. The layout is the spec's: the format version as an unsigned 32-bit number, the
  pipeline section, which enumerates the transforms in apply order with kind tag, column lists
  and fitted-state payload, then the weights section, an opaque blob. The spec leaves the
  encoding of the payloads open; here a natural number is written in groups of seven bits with
  a continuation bit, an integer with a sign byte, a rational as numerator and denominator, a
  list with its length first, text as its bytes. A load fails with VersionMismatchError on
  another version and with CorruptArtifactError when the bytes do not parse.
\<close>

type_synonym byte = "8 word"

definition FORMAT_VERSION :: nat where
  "FORMAT_VERSION = 1"

definition enc_u32 :: "nat \<Rightarrow> byte list" where
  "enc_u32 n = [of_nat (n div 16777216), of_nat (n div 65536), of_nat (n div 256), of_nat n]"

fun dec_u32 :: "byte list \<Rightarrow> (nat \<times> byte list) option" where
  "dec_u32 (a # b # c # d # rest) =
     Some (((unat a * 256 + unat b) * 256 + unat c) * 256 + unat d, rest)"
| "dec_u32 bs = None"

fun enc_nat :: "nat \<Rightarrow> byte list" where
  "enc_nat n = (if n < 128 then [of_nat n] else of_nat (128 + n mod 128) # enc_nat (n div 128))"

declare enc_nat.simps [simp del]

fun dec_nat :: "byte list \<Rightarrow> (nat \<times> byte list) option" where
  "dec_nat [] = None"
| "dec_nat (b # bs) =
     (if unat b < 128 then Some (unat b, bs)
      else Option.bind (dec_nat bs) (\<lambda>(m, rest). Some (unat b - 128 + 128 * m, rest)))"

definition enc_int :: "int \<Rightarrow> byte list" where
  "enc_int i = (if i < 0 then 1 # enc_nat (nat (- i)) else 0 # enc_nat (nat i))"

fun dec_int :: "byte list \<Rightarrow> (int \<times> byte list) option" where
  "dec_int [] = None"
| "dec_int (s # bs) =
     Option.bind (dec_nat bs)
       (\<lambda>(m, rest). if s = 0 then Some (int m, rest)
                     else if s = 1 then Some (- int m, rest) else None)"

definition enc_rat :: "rat \<Rightarrow> byte list" where
  "enc_rat q = (case quotient_of q of (n, d) \<Rightarrow> enc_int n @ enc_int d)"

definition dec_rat :: "byte list \<Rightarrow> (rat \<times> byte list) option" where
  "dec_rat bs =
     Option.bind (dec_int bs) (\<lambda>(n, rest).
     Option.bind (dec_int rest) (\<lambda>(d, rest').
       if 0 < d then Some (of_int n / of_int d, rest') else None))"

fun enc_flt :: "flt \<Rightarrow> byte list" where
  "enc_flt NaN = [0]"
| "enc_flt PInf = [1]"
| "enc_flt NInf = [2]"
| "enc_flt NZero = [3]"
| "enc_flt (Fin q) = 4 # enc_rat q"

fun dec_flt :: "byte list \<Rightarrow> (flt \<times> byte list) option" where
  "dec_flt [] = None"
| "dec_flt (t # bs) =
     (if t = 0 then Some (NaN, bs) else if t = 1 then Some (PInf, bs)
      else if t = 2 then Some (NInf, bs) else if t = 3 then Some (NZero, bs)
      else if t = 4 then Option.bind (dec_rat bs) (\<lambda>(q, rest). Some (Fin q, rest))
      else None)"

text \<open>A list: the number of items, then the items.\<close>

definition enc_list :: "('a \<Rightarrow> byte list) \<Rightarrow> 'a list \<Rightarrow> byte list" where
  "enc_list enc xs = enc_nat (length xs) @ concat (map enc xs)"

fun dec_items :: "(byte list \<Rightarrow> ('a \<times> byte list) option) \<Rightarrow> nat \<Rightarrow> byte list
    \<Rightarrow> ('a list \<times> byte list) option" where
  "dec_items dec 0 bs = Some ([], bs)"
| "dec_items dec (Suc n) bs =
     Option.bind (dec bs) (\<lambda>(x, rest).
     Option.bind (dec_items dec n rest) (\<lambda>(xs, rest'). Some (x # xs, rest')))"

definition dec_list :: "(byte list \<Rightarrow> ('a \<times> byte list) option) \<Rightarrow> byte list
    \<Rightarrow> ('a list \<times> byte list) option" where
  "dec_list dec bs = Option.bind (dec_nat bs) (\<lambda>(n, rest). dec_items dec n rest)"

definition enc_char :: "char \<Rightarrow> byte list" where
  "enc_char c = [of_nat (of_char c)]"

fun dec_char :: "byte list \<Rightarrow> (char \<times> byte list) option" where
  "dec_char [] = None"
| "dec_char (b # bs) = Some (char_of (unat b), bs)"

definition enc_string :: "string \<Rightarrow> byte list" where
  "enc_string = enc_list enc_char"

definition dec_string :: "byte list \<Rightarrow> (string \<times> byte list) option" where
  "dec_string = dec_list dec_char"

definition enc_pair :: "('a \<Rightarrow> byte list) \<Rightarrow> ('b \<Rightarrow> byte list) \<Rightarrow> 'a \<times> 'b \<Rightarrow> byte list" where
  "enc_pair ea eb p = ea (fst p) @ eb (snd p)"

definition dec_pair :: "(byte list \<Rightarrow> ('a \<times> byte list) option)
    \<Rightarrow> (byte list \<Rightarrow> ('b \<times> byte list) option) \<Rightarrow> byte list \<Rightarrow> (('a \<times> 'b) \<times> byte list) option" where
  "dec_pair da db bs =
     Option.bind (da bs) (\<lambda>(a, rest). Option.bind (db rest) (\<lambda>(b, rest'). Some ((a, b), rest')))"

fun enc_option :: "('a \<Rightarrow> byte list) \<Rightarrow> 'a option \<Rightarrow> byte list" where
  "enc_option enc None = [0]"
| "enc_option enc (Some x) = 1 # enc x"

fun dec_option :: "(byte list \<Rightarrow> ('a \<times> byte list) option) \<Rightarrow> byte list
    \<Rightarrow> ('a option \<times> byte list) option" where
  "dec_option dec [] = None"
| "dec_option dec (t # bs) =
     (if t = 0 then Some (None, bs)
      else if t = 1 then Option.bind (dec bs) (\<lambda>(x, rest). Some (Some x, rest))
      else None)"

fun enc_cell :: "cell \<Rightarrow> byte list" where
  "enc_cell (Num x) = 0 # enc_flt x"
| "enc_cell (Str s) = 1 # enc_string s"
| "enc_cell (Bln b) = [2, if b then 1 else 0]"
| "enc_cell (Tensor v) = 3 # enc_list enc_flt v"

fun dec_cell :: "byte list \<Rightarrow> (cell \<times> byte list) option" where
  "dec_cell [] = None"
| "dec_cell (t # bs) =
     (if t = 0 then Option.bind (dec_flt bs) (\<lambda>(x, rest). Some (Num x, rest))
      else if t = 1 then Option.bind (dec_string bs) (\<lambda>(s, rest). Some (Str s, rest))
      else if t = 2 then
        (case bs of [] \<Rightarrow> None
         | b # rest \<Rightarrow> if b = 0 then Some (Bln False, rest)
                       else if b = 1 then Some (Bln True, rest) else None)
      else if t = 3 then Option.bind (dec_list dec_flt bs) (\<lambda>(v, rest). Some (Tensor v, rest))
      else None)"

fun enc_strategy :: "strategy \<Rightarrow> byte list" where
  "enc_strategy Most_frequent = [0]"
| "enc_strategy Mean = [1]"

fun dec_strategy :: "byte list \<Rightarrow> (strategy \<times> byte list) option" where
  "dec_strategy [] = None"
| "dec_strategy (t # bs) =
     (if t = 0 then Some (Most_frequent, bs) else if t = 1 then Some (Mean, bs) else None)"

fun enc_udf :: "udf \<Rightarrow> byte list" where
  "enc_udf Batch_mapper_fn = [0]"
| "enc_udf Concat_for_tensor = [1]"

fun dec_udf :: "byte list \<Rightarrow> (udf \<times> byte list) option" where
  "dec_udf [] = None"
| "dec_udf (t # bs) =
     (if t = 0 then Some (Batch_mapper_fn, bs) else if t = 1 then Some (Concat_for_tensor, bs)
      else None)"

text \<open>One transform: the kind tag, the column list, the configuration, the fitted state.\<close>

fun enc_transform :: "transform \<Rightarrow> byte list" where
  "enc_transform (SimpleImputer cs strat st) =
     0 # enc_list enc_string cs @ enc_strategy strat
       @ enc_option (enc_list (enc_pair enc_string enc_cell)) st"
| "enc_transform (OneHotEncoder cs caps st) =
     1 # enc_list enc_string cs @ enc_list (enc_pair enc_string enc_nat) caps
       @ enc_option (enc_list (enc_pair enc_string (enc_list enc_cell))) st"
| "enc_transform (BatchMapper f) = 2 # enc_udf f"

fun dec_transform :: "byte list \<Rightarrow> (transform \<times> byte list) option" where
  "dec_transform [] = None"
| "dec_transform (t # bs) =
     (if t = 0 then
        Option.bind (dec_list dec_string bs) (\<lambda>(cs, r1).
        Option.bind (dec_strategy r1) (\<lambda>(strat, r2).
        Option.bind (dec_option (dec_list (dec_pair dec_string dec_cell)) r2) (\<lambda>(st, r3).
          Some (SimpleImputer cs strat st, r3))))
      else if t = 1 then
        Option.bind (dec_list dec_string bs) (\<lambda>(cs, r1).
        Option.bind (dec_list (dec_pair dec_string dec_nat) r1) (\<lambda>(caps, r2).
        Option.bind (dec_option (dec_list (dec_pair dec_string (dec_list dec_cell))) r2) (\<lambda>(st, r3).
          Some (OneHotEncoder cs caps st, r3))))
      else if t = 2 then Option.bind (dec_udf bs) (\<lambda>(f, rest). Some (BatchMapper f, rest))
      else None)"

definition serialize :: "transform list \<Rightarrow> byte list \<Rightarrow> byte list" where
  "serialize P weights = enc_u32 FORMAT_VERSION @ enc_list enc_transform P @ weights"

definition deserialize :: "byte list \<Rightarrow> error + transform list \<times> byte list" where
  "deserialize bs =
     (case dec_u32 bs of
        None \<Rightarrow> Inl CorruptArtifactError
      | Some (v, rest) \<Rightarrow>
          if v \<noteq> FORMAT_VERSION then Inl VersionMismatchError
          else (case dec_list dec_transform rest of
                  None \<Rightarrow> Inl CorruptArtifactError
                | Some (P, weights) \<Rightarrow> Inr (P, weights)))"

text \<open>A decoder inverts an encoder when it reads back what was written and leaves the rest.\<close>

definition inverts :: "(byte list \<Rightarrow> ('a \<times> byte list) option) \<Rightarrow> ('a \<Rightarrow> byte list) \<Rightarrow> bool" where
  "inverts dec enc = (\<forall>x rest. dec (enc x @ rest) = Some (x, rest))"

section \<open>The inference service\<close>





section \<open>The transforms row by row\<close>


definition concat_row :: "string list \<Rightarrow> cell list \<Rightarrow> error + cell list" where
  "concat_row cols r =
     (case traverse to_float32 (map (value_at cols r) (filter (\<lambda>col. col \<noteq> LABEL) cols)) of
        Inl e \<Rightarrow> Inl e
      | Inr v \<Rightarrow> Inr [Tensor v, value_at cols r LABEL])"







section \<open>Example frames\<close>

text \<open>
  A raw frame with \<^verbatim>\<open>fare = [10, 0, 5]\<close> and \<^verbatim>\<open>trip_miles = [2, missing, 4]\<close>, and a raw
  frame whose single fare is the negative zero.
\<close>

definition raw_columns :: "string list" where
  "raw_columns =
     [''trip_miles'', ''tips'', ''fare'', ''dropoff_latitude'', ''dropoff_longitude'',
      ''pickup_latitude'', ''pickup_longitude'', ''pickup_census_tract'']"

definition csv_example :: dataframe where
  "csv_example =
     \<lparr>columns = raw_columns,
      rows = [[Num (Fin 2), Num (Fin 3), Num (Fin 10), Num NaN, Num NaN, Num NaN, Num NaN, Num NaN],
              [Num NaN, Num (Fin 1), Num (Fin 0), Num NaN, Num NaN, Num NaN, Num NaN, Num NaN],
              [Num (Fin 4), Num (Fin (1 / 2)), Num (Fin 5), Num NaN, Num NaN, Num NaN, Num NaN, Num NaN]]\<rparr>"

definition data_example :: dataframe where
  "data_example =
     \<lparr>columns = [''trip_miles'', ''is_big_tip''],
      rows = [[Num (Fin 2), Bln True], [Num NaN, Bln True], [Num (Fin 4), Bln False]]\<rparr>"

definition csv_negative_zero :: dataframe where
  "csv_negative_zero =
     \<lparr>columns = raw_columns,
      rows = [[Num (Fin 2), Num (Fin 1), Num NZero, Num NaN, Num NaN, Num NaN, Num NaN, Num NaN]]\<rparr>"

text \<open>A one-row frame with 120 numeric feature columns and the label.\<close>

definition wide_example :: dataframe where
  "wide_example =
     \<lparr>columns = map (\<lambda>i. ''f'' @ show_nat i) [0..<120] @ [''is_big_tip''],
      rows = [replicate 120 (Num (Fin 1)) @ [Bln True]]\<rparr>"











text \<open>A record whose \<open>trip_miles\<close> is missing, and a column of payment types.\<close>

definition missing_miles :: dataframe where
  "missing_miles = \<lparr>columns = [''trip_miles''], rows = [[Num NaN]]\<rparr>"

definition payments :: dataframe where
  "payments =
     \<lparr>columns = [''payment_type''],
      rows = replicate 100 [Str ''cash''] @ replicate 80 [Str ''card''] @ [[Str ''check'']]\<rparr>"

definition check_request :: dataframe where
  "check_request = \<lparr>columns = [''payment_type''], rows = [[Str ''check'']]\<rparr>"


section \<open>Properties\<close>

lemma traverse_length: "traverse f xs = Inr ys \<Longrightarrow> length ys = length xs"
  by (induction xs arbitrary: ys) (auto split: sum.splits)

subsection \<open>Column operations\<close>

lemma map_of_zip_update:
  "length r = length cols \<Longrightarrow> c \<in> set cols \<Longrightarrow>
   map_of (zip cols (map (\<lambda>(k, x). if k = c then v else x) (zip cols r))) c = Some v"
  by (induction cols arbitrary: r) (auto simp: length_Suc_conv)

lemma value_at_zip_update:
  "length r = length cols \<Longrightarrow> c \<in> set cols \<Longrightarrow>
   value_at cols (map (\<lambda>(k, x). if k = c then v else x) (zip cols r)) c = v"
  by (simp add: value_at_def map_of_zip_update)

lemma value_at_append_new:
  "length r = length cols \<Longrightarrow> c \<notin> set cols \<Longrightarrow> value_at (cols @ [c]) (r @ [v]) c = v"
  unfolding value_at_def
  by (induction cols arbitrary: r) (auto simp: length_Suc_conv)

lemma value_at_drop:
  "length r = length cols \<Longrightarrow> c \<notin> set cs \<Longrightarrow>
   value_at (filter (\<lambda>k. k \<notin> set cs) cols) (map snd (filter (\<lambda>(k, x). k \<notin> set cs) (zip cols r))) c
   = value_at cols r c"
  unfolding value_at_def
  by (induction cols arbitrary: r) (auto simp: length_Suc_conv)

lemma series_div_Inr:
  "series_div rnd xs ys = Inr qs \<Longrightarrow>
   \<exists>ts fs. xs = map Num ts \<and> ys = map Num fs \<and> length ts = length fs \<and>
     qs = map (\<lambda>(t, f). fdiv rnd t f) (zip ts fs)"
proof (induction rnd xs ys arbitrary: qs rule: series_div.induct)
  case (1 rnd x xs y ys)
  then obtain qs' where q: "series_div rnd xs ys = Inr qs'" "qs = fdiv rnd x y # qs'"
    by (auto split: sum.splits)
  from 1(1)[OF q(1)] obtain ts fs where
    "xs = map Num ts" "ys = map Num fs" "length ts = length fs"
    "qs' = map (\<lambda>(t, f). fdiv rnd t f) (zip ts fs)" by blast
  then show ?case using q(2)
    by (intro exI[of _ "x # ts"] exI[of _ "y # fs"]) simp
qed auto

lemma fdiv_pos_zero: "fgt (fdiv rnd t (Fin 0)) (Fin double_0_2) = fgt t (Fin 0)"
  by (cases t) (auto simp: fdiv_def fgt_def is_inf_def is_zero_def sign_bit_def signed_inf_def
      rat_of_def double_0_2_def)

lemma get_col_set_col:
  assumes "wf_df df" "length vs = length (rows df)"
  shows "get_col (set_col df c vs) c = Inr vs"
proof -
  have len: "\<forall>r \<in> set (rows df). length r = length (columns df)"
    using assms(1) by (simp add: wf_df_def list_all_iff)
  have "map (\<lambda>r. value_at (columns (set_col df c vs)) r c) (rows (set_col df c vs)) = vs"
  proof (rule nth_equalityI)
    show "length (map (\<lambda>r. value_at (columns (set_col df c vs)) r c) (rows (set_col df c vs))) = length vs"
      using assms(2) by (simp add: set_col_def)
  next
    fix i assume "i < length (map (\<lambda>r. value_at (columns (set_col df c vs)) r c) (rows (set_col df c vs)))"
    then have i: "i < length (rows df)" "i < length vs"
      using assms(2) by (auto simp: set_col_def split: if_splits)
    then have "length (rows df ! i) = length (columns df)" using len by simp
    then show "map (\<lambda>r. value_at (columns (set_col df c vs)) r c) (rows (set_col df c vs)) ! i = vs ! i"
      using i by (simp add: set_col_def set_field_def value_at_zip_update value_at_append_new)
  qed
  then show ?thesis by (simp add: get_col_def set_col_def)
qed

lemma wf_set_col: "wf_df df \<Longrightarrow> wf_df (set_col df c vs)"
  by (auto simp: wf_df_def set_col_def set_field_def list_all_iff dest!: set_zip_leftD)

lemma drop_cols_Inr:
  "drop_cols df cs = Inr df' \<Longrightarrow>
   set cs \<subseteq> set (columns df) \<and> columns df' = filter (\<lambda>k. k \<notin> set cs) (columns df) \<and>
   rows df' = map (drop_fields (columns df) cs) (rows df)"
  by (auto simp: drop_cols_def filter_empty_conv split: list.splits)

lemma get_col_drop_cols:
  assumes "wf_df df" "drop_cols df cs = Inr df'" "c \<notin> set cs"
  shows "get_col df' c = get_col df c"
proof -
  have len: "\<forall>r \<in> set (rows df). length r = length (columns df)"
    using assms(1) by (simp add: wf_df_def list_all_iff)
  note d = drop_cols_Inr[OF assms(2)]
  show ?thesis
    using assms(3) len d by (auto simp: get_col_def drop_fields_def value_at_drop)
qed

lemma get_data_label:
  assumes "wf_df csv" "get_data rnd csv = Inr df"
  shows "\<exists>ts fs. get_col csv ''tips'' = Inr (map Num ts) \<and> get_col csv ''fare'' = Inr (map Num fs)
      \<and> length ts = length fs
      \<and> get_col df LABEL = Inr (map (\<lambda>(t, f). Bln (fgt (fdiv rnd t f) (Fin double_0_2))) (zip ts fs))
      \<and> set (columns df) \<inter> set dropped_columns = {}"
proof -
  from assms(2) obtain tips fare ratio where
    t: "get_col csv ''tips'' = Inr tips" and f: "get_col csv ''fare'' = Inr fare"
    and r: "series_div rnd tips fare = Inr ratio"
    and d: "drop_cols (set_col csv LABEL (map (\<lambda>q. Bln (fgt q (Fin double_0_2))) ratio)) dropped_columns = Inr df"
    by (auto simp: get_data_def split: sum.splits)
  from series_div_Inr[OF r] obtain ts fs where
    tf: "tips = map Num ts" "fare = map Num fs" "length ts = length fs"
    "ratio = map (\<lambda>(t, f). fdiv rnd t f) (zip ts fs)" by blast
  let ?lab = "map (\<lambda>q. Bln (fgt q (Fin double_0_2))) ratio"
  have "length tips = length (rows csv)" using t by (auto simp: get_col_def split: if_splits)
  then have len: "length ?lab = length (rows csv)" using tf by simp
  have "LABEL \<notin> set dropped_columns" by (simp add: LABEL_def dropped_columns_def)
  then have "get_col df LABEL = get_col (set_col csv LABEL ?lab) LABEL"
    using get_col_drop_cols[OF wf_set_col[OF assms(1)] d] by simp
  also have "\<dots> = Inr ?lab" by (rule get_col_set_col[OF assms(1) len])
  finally have lab: "get_col df LABEL = Inr ?lab" .
  have e: "?lab = map (\<lambda>(t, f). Bln (fgt (fdiv rnd t f) (Fin double_0_2))) (zip ts fs)"
    using tf(4) by auto
  have dis: "set (columns df) \<inter> set dropped_columns = {}"
    using drop_cols_Inr[OF d] by auto
  show ?thesis
    apply (rule exI[of _ ts], rule exI[of _ fs])
    using t f tf(1,2,3) lab e dis by simp
qed

subsection \<open>The label of \<^verbatim>\<open>get_data\<close>\<close>

lemmas df_simps = get_data_def get_col_def set_col_def set_field_def drop_cols_def drop_fields_def value_at_def dropped_columns_def
  LABEL_def fdiv_def fgt_def is_inf_def is_zero_def sign_bit_def signed_inf_def
  signed_zero_def rat_of_def double_0_2_def wf_df_def

text \<open>
  Claim C10, as amended. Every frame that \<^verbatim>\<open>get_data\<close> returns holds the boolean label column
  \<open>is_big_tip\<close>, equal row by row to \<^verbatim>\<open>tips / fare > 0.2\<close>, and none of the seven dropped
  columns. Where the fare is the positive zero the label is true exactly when \<^verbatim>\<open>tips > 0\<close>;
  where it is the negative zero the infinity changes sign and the label is true exactly when
  \<^verbatim>\<open>tips < 0\<close>.
\<close>

theorem get_data_label_and_dropped_columns:
  assumes "wf_df csv" and "get_data rnd csv = Inr df"
  shows "(\<exists>ts fs. get_col csv ''tips'' = Inr (map Num ts) \<and> get_col csv ''fare'' = Inr (map Num fs)
      \<and> length ts = length fs
      \<and> get_col df LABEL = Inr (map (\<lambda>(t, f). Bln (fgt (fdiv rnd t f) (Fin double_0_2))) (zip ts fs)))
    \<and> set (columns df) \<inter> set dropped_columns = {}
    \<and> (\<forall>t. fgt (fdiv rnd t (Fin 0)) (Fin double_0_2) = fgt t (Fin 0))
    \<and> (\<forall>t. fgt (fdiv rnd t NZero) (Fin double_0_2) = fgt (Fin 0) t)"
proof -
  have neg: "fgt (fdiv rnd t NZero) (Fin double_0_2) = fgt (Fin 0) t" for t
    by (cases t) (auto simp: fdiv_def fgt_def is_inf_def is_zero_def sign_bit_def signed_inf_def
      rat_of_def double_0_2_def)
  from get_data_label[OF assms] fdiv_pos_zero neg show ?thesis by blast
qed

theorem get_data_example_witness:
  "wf_df csv_example \<and> get_data Fin csv_example = Inr data_example
   \<and> get_col data_example LABEL = Inr [Bln True, Bln True, Bln False]
   \<and> set (columns data_example) \<inter> set dropped_columns = {}"
proof -
  have w: "wf_df csv_example"
    by (simp add: csv_example_def raw_columns_def wf_df_def)
  have g: "get_data Fin csv_example = Inr data_example"
    by (simp add: csv_example_def data_example_def raw_columns_def df_simps)
  have l: "get_col data_example LABEL = Inr [Bln True, Bln True, Bln False]"
    by (simp add: data_example_def df_simps)
  from get_data_label_and_dropped_columns[OF w g]
  have "set (columns data_example) \<inter> set dropped_columns = {}" by blast
  with w g l show ?thesis by blast
qed

text \<open>
  Claim C10 as stated fails at a fare of \<^verbatim>\<open>-0.0\<close> (which equals zero) with a tip of 1: the
  quotient is the negative infinity and the label is false although \<^verbatim>\<open>tips > 0\<close>.
\<close>

theorem get_data_negative_zero_fare:
  "get_col csv_negative_zero ''fare'' = Inr [Num NZero] \<and> is_zero NZero
   \<and> get_col csv_negative_zero ''tips'' = Inr [Num (Fin 1)] \<and> fgt (Fin 1) (Fin 0)
   \<and> get_data Fin csv_negative_zero
       = Inr \<lparr>columns = [''trip_miles'', ''is_big_tip''], rows = [[Num (Fin 2), Bln False]]\<rparr>"
  by (simp add: csv_negative_zero_def raw_columns_def df_simps)

subsection \<open>Every transform works row by row\<close>


lemma traverse_zip:
  "traverse (\<lambda>x. case f (g x) of Inl e \<Rightarrow> Inl e | Inr y \<Rightarrow> Inr (h x y)) xs
   = (case traverse f (map g xs) of Inl e \<Rightarrow> Inl e
      | Inr ys \<Rightarrow> Inr (map (\<lambda>(x, y). h x y) (zip xs ys)))"
  by (induction xs) (auto split: sum.splits)

lemma first_absent_None: "first_absent cs cols = None \<longleftrightarrow> set cs \<subseteq> set cols"
proof -
  have "first_absent cs cols = None \<longleftrightarrow> filter (\<lambda>c. c \<notin> set cols) cs = []"
    by (cases "filter (\<lambda>c. c \<notin> set cols) cs") (auto simp: first_absent_def)
  then show ?thesis by (auto simp: filter_empty_conv)
qed

lemma dataframe_eq_iff:
  "(out :: dataframe) = \<lparr>columns = cs, rows = rs\<rparr> \<longleftrightarrow> columns out = cs \<and> rows out = rs"
  by (cases out) auto


lemma concat_for_tensor_rowwise:
  "concat_for_tensor df =
     (case traverse (concat_row (columns df)) (rows df) of
        Inl e \<Rightarrow> Inl e
      | Inr rs \<Rightarrow> if LABEL \<in> set (columns df)
                  then Inr \<lparr>columns = [''input'', LABEL], rows = rs\<rparr>
                  else Inl (KeyError LABEL))"
proof -
  let ?pack = "\<lambda>r. traverse to_float32 (map (value_at (columns df) r) (feature_cols df))"
  have sel: "select_cols df (feature_cols df)
      = Inr \<lparr>columns = feature_cols df,
             rows = map (\<lambda>r. map (value_at (columns df) r) (feature_cols df)) (rows df)\<rparr>"
    by (auto simp: select_cols_def feature_cols_def filter_empty_conv split: list.splits)
  have tr: "traverse (concat_row (columns df)) (rows df)
    = (case traverse (traverse to_float32)
              (map (\<lambda>r. map (value_at (columns df) r) (feature_cols df)) (rows df)) of
         Inl e \<Rightarrow> Inl e
       | Inr arr \<Rightarrow> Inr (map (\<lambda>(r, v). [Tensor v, value_at (columns df) r LABEL]) (zip (rows df) arr)))"
    unfolding concat_row_def feature_cols_def[symmetric] by (rule traverse_zip)
  have z: "length arr = length rs \<Longrightarrow>
      map (\<lambda>(v, l). [Tensor v, l]) (zip arr (map g rs)) = map (\<lambda>(r, v). [Tensor v, g r]) (zip rs arr)"
    for arr :: "flt list list" and rs :: "cell list list" and g
    by (induction arr rs rule: list_induct2) auto
  show ?thesis
    using sel tr
    by (auto simp: concat_for_tensor_def to_numpy_def get_col_def z dest!: traverse_length
        split: sum.splits)
qed



subsection \<open>The packing transform\<close>

lemma traverse_nth:
  "traverse f xs = Inr ys \<Longrightarrow> i < length xs \<Longrightarrow> f (xs ! i) = Inr (ys ! i)"
proof (induction xs arbitrary: ys i)
  case (Cons x xs)
  then show ?case by (cases i) (auto split: sum.splits)
qed simp

lemma traverse_Inl: "traverse f xs = Inl e \<Longrightarrow> \<exists>x \<in> set xs. f x = Inl e"
  by (induction xs) (auto split: sum.splits)

lemma traverse_total:
  "(\<And>x. x \<in> set xs \<Longrightarrow> \<exists>y. f x = Inr y) \<Longrightarrow> \<exists>ys. traverse f xs = Inr ys"
proof (induction xs)
  case (Cons x xs)
  then obtain y ys where "f x = Inr y" "traverse f xs = Inr ys" by (meson list.set_intros)
  then show ?case by simp
qed simp

lemma to_float32_error: "to_float32 c = Inl e \<Longrightarrow> e = ValueError"
  by (cases c) auto

lemma concat_row_error: "concat_row cols r = Inl e \<Longrightarrow> e = ValueError"
  by (auto simp: concat_row_def split: sum.splits dest!: traverse_Inl to_float32_error)

lemma concat_for_tensor_error:
  "concat_for_tensor df = Inl e \<Longrightarrow> e = ValueError \<or> (e = KeyError LABEL \<and> LABEL \<notin> set (columns df))"
  by (auto simp: concat_for_tensor_rowwise split: sum.splits if_splits
      dest!: traverse_Inl concat_row_error)

text \<open>
  Claim C8, as amended. \<^verbatim>\<open>concat_for_tensor\<close> packs all the columns of the batch but the label,
  in the order of the batch, into one vector per record: the width of the vector is the number
  of these columns, whatever it is, and no width is checked, so DimensionError is never raised.
  With the label present and every feature entry numeric it returns; when the batch has 120
  feature columns the vector has width 120.
\<close>

theorem concat_for_tensor_packs_all_feature_columns:
  "concat_for_tensor df \<noteq> Inl DimensionError
   \<and> (\<forall>out. concat_for_tensor df = Inr out \<longrightarrow>
        columns out = [''input'', LABEL] \<and> length (rows out) = length (rows df)
        \<and> (\<forall>i < length (rows df). \<exists>v.
              rows out ! i = [Tensor v, value_at (columns df) (rows df ! i) LABEL]
              \<and> traverse to_float32 (map (value_at (columns df) (rows df ! i)) (feature_cols df)) = Inr v
              \<and> length v = length (feature_cols df)))
   \<and> (LABEL \<in> set (columns df)
        \<and> (\<forall>r \<in> set (rows df). \<forall>c \<in> set (feature_cols df). \<exists>x. to_float32 (value_at (columns df) r c) = Inr x)
      \<longrightarrow> (\<exists>out. concat_for_tensor df = Inr out))"
proof -
  have no_dim: "concat_for_tensor df \<noteq> Inl DimensionError"
    using concat_for_tensor_error[of df DimensionError] by auto
  have packed: "columns out = [''input'', LABEL] \<and> length (rows out) = length (rows df)
        \<and> (\<forall>i < length (rows df). \<exists>v.
              rows out ! i = [Tensor v, value_at (columns df) (rows df ! i) LABEL]
              \<and> traverse to_float32 (map (value_at (columns df) (rows df ! i)) (feature_cols df)) = Inr v
              \<and> length v = length (feature_cols df))"
    if c: "concat_for_tensor df = Inr out" for out
  proof -
    from c have t: "traverse (concat_row (columns df)) (rows df) = Inr (rows out)"
      and cols: "columns out = [''input'', LABEL]"
      by (auto simp: concat_for_tensor_rowwise split: sum.splits if_splits)
    have "\<exists>v. rows out ! i = [Tensor v, value_at (columns df) (rows df ! i) LABEL]
              \<and> traverse to_float32 (map (value_at (columns df) (rows df ! i)) (feature_cols df)) = Inr v
              \<and> length v = length (feature_cols df)" if "i < length (rows df)" for i
    proof -
      from traverse_nth[OF t that]
      obtain v where v: "traverse to_float32 (map (value_at (columns df) (rows df ! i)) (feature_cols df)) = Inr v"
        "rows out ! i = [Tensor v, value_at (columns df) (rows df ! i) LABEL]"
        by (auto simp: concat_row_def feature_cols_def split: sum.splits)
      from traverse_length[OF v(1)] have "length v = length (feature_cols df)" by simp
      with v show ?thesis by blast
    qed
    with cols traverse_length[OF t] show ?thesis by blast
  qed
  have succeeds: "\<exists>out. concat_for_tensor df = Inr out"
    if a: "LABEL \<in> set (columns df)
        \<and> (\<forall>r \<in> set (rows df). \<forall>c \<in> set (feature_cols df). \<exists>x. to_float32 (value_at (columns df) r c) = Inr x)"
  proof -
    have "\<exists>y. concat_row (columns df) r = Inr y" if "r \<in> set (rows df)" for r
    proof -
      have "\<exists>v. traverse to_float32 (map (value_at (columns df) r) (feature_cols df)) = Inr v"
        using a that by (intro traverse_total) auto
      then show ?thesis by (auto simp: concat_row_def feature_cols_def)
    qed
    then obtain rs where "traverse (concat_row (columns df)) (rows df) = Inr rs"
      using traverse_total by blast
    then show ?thesis using a by (simp add: concat_for_tensor_rowwise)
  qed
  from no_dim packed succeeds show ?thesis by blast
qed

lemma value_at_cases: "value_at cols r c \<in> set r \<or> value_at cols r c = Num NaN"
  by (auto simp: value_at_def split: option.splits dest!: map_of_SomeD set_zip_rightD)

lemma feature_cols_wide_example: "feature_cols wide_example = map (\<lambda>i. ''f'' @ show_nat i) [0..<120]"
  by (simp add: wide_example_def feature_cols_def LABEL_def)

theorem concat_for_tensor_width_120_witness:
  "length (feature_cols wide_example) = INPUT_SIZE
   \<and> (\<exists>v. concat_for_tensor wide_example
           = Inr \<lparr>columns = [''input'', LABEL], rows = [[Tensor v, Bln True]]\<rparr> \<and> length v = 120)"
proof -
  have w: "length (feature_cols wide_example) = INPUT_SIZE"
    by (simp add: feature_cols_wide_example INPUT_SIZE_def)
  have lab: "LABEL \<in> set (columns wide_example)"
    by (simp add: wide_example_def LABEL_def)
  have conv: "\<exists>x. to_float32 (value_at (columns wide_example) r c) = Inr x"
    if "r \<in> set (rows wide_example)" for r c
    using that value_at_cases[of "columns wide_example" r c]
    by (auto simp: wide_example_def)
  note th = concat_for_tensor_packs_all_feature_columns[of wide_example]
  from th lab conv obtain out where out: "concat_for_tensor wide_example = Inr out" by blast
  with th have c: "columns out = [''input'', LABEL]" and l: "length (rows out) = 1"
    and "\<exists>v. rows out ! 0 = [Tensor v, value_at (columns wide_example) (rows wide_example ! 0) LABEL]
          \<and> length v = length (feature_cols wide_example)"
    by (auto simp: wide_example_def)
  then obtain v where v: "rows out ! 0 = [Tensor v, value_at (columns wide_example) (rows wide_example ! 0) LABEL]"
    "length v = 120" using w by (auto simp: INPUT_SIZE_def)
  have "value_at (columns wide_example) (rows wide_example ! 0) LABEL = Bln True"
    unfolding wide_example_def LABEL_def
    by (simp only: dataframe.select_convs nth_Cons_0, rule value_at_append_new) auto
  with v have r0: "rows out ! 0 = [Tensor v, Bln True]" by simp
  have "rows out = [rows out ! 0]" using l by (cases "rows out") auto
  with r0 c have "out = \<lparr>columns = [''input'', LABEL], rows = [[Tensor v, Bln True]]\<rparr>"
    by (simp add: dataframe_eq_iff)
  with out v(2) w show ?thesis by blast
qed

text \<open>
  Claim C8 as stated fails on a batch with one feature column: the width is not 120 and the
  transform returns a vector of width one instead of raising DimensionError.
\<close>

theorem concat_for_tensor_narrow_batch:
  "length (feature_cols data_example) \<noteq> INPUT_SIZE
   \<and> concat_for_tensor data_example
       = Inr \<lparr>columns = [''input'', ''is_big_tip''],
              rows = [[Tensor [Fin 2], Bln True], [Tensor [NaN], Bln True], [Tensor [Fin 4], Bln False]]\<rparr>"
  by (simp add: data_example_def feature_cols_def INPUT_SIZE_def LABEL_def concat_for_tensor_def
      select_cols_def to_numpy_def get_col_def value_at_def)

subsection \<open>Chains\<close>

lemma apply_chain_Cons_Inr:
  "apply_chain (t # ts) df = Inr out \<longleftrightarrow>
     (\<exists>df1. apply_transform t df = Inr df1 \<and> apply_chain ts df1 = Inr out)"
  by (auto split: sum.splits)













subsection \<open>Evaluating the example pipeline\<close>




subsection \<open>Row independence\<close>




subsection \<open>Zero-length batches\<close>




subsection \<open>Batches without the label\<close>






subsection \<open>Requests that miss a source column\<close>




subsection \<open>Fit over a partitioned dataset\<close>










lemma traverse_Inr_iff:
  "traverse f xs = Inr ys \<longleftrightarrow> (\<forall>x \<in> set xs. \<exists>y. f x = Inr y) \<and> ys = map (\<lambda>x. projr (f x)) xs"
proof (induction xs arbitrary: ys)
  case Nil
  then show ?case by auto
next
  case (Cons x xs)
  show ?case
  proof (cases "f x")
    case (Inl e)
    then show ?thesis by auto
  next
    case (Inr y)
    show ?thesis
    proof (cases "traverse f xs")
      case (Inl e)
      with Cons[of "map (\<lambda>x. projr (f x)) xs"] Inr show ?thesis by auto
    next
      case r: (Inr zs)
      with Cons[of zs] Inr show ?thesis by auto
    qed
  qed
qed








subsection \<open>The mean imputer\<close>

lemma zip_map_same: "zip cs (map g cs) = map (\<lambda>c. (c, g c)) cs"
  by (induction cs) auto

lemma map_of_map_key: "c \<in> set cs \<Longrightarrow> map_of (map (\<lambda>c. (c, g c)) cs) c = Some (g c)"
  by (induction cs) auto

lemma fit_imputer_columns_mean:
  assumes "traverse (fit_imputer_column Mean) (zip cs (map g cs)) = Inr fills"
  shows "fills = map (\<lambda>c. (c, Num (Fin (total (g c) / of_nat (observed (g c)))))) cs
         \<and> (\<forall>c \<in> set cs. observed (g c) \<noteq> 0)"
proof -
  from assms have a: "\<forall>c \<in> set cs. \<exists>y. fit_imputer_column Mean (c, g c) = Inr y"
    and f: "fills = map (\<lambda>c. projr (fit_imputer_column Mean (c, g c))) cs"
    by (auto simp: traverse_Inr_iff zip_map_same comp_def)
  from a have n: "\<forall>c \<in> set cs. observed (g c) \<noteq> 0"
    by (auto simp: fit_imputer_column_def fitted_mean_def split: if_splits)
  then have "map (\<lambda>c. projr (fit_imputer_column Mean (c, g c))) cs
      = map (\<lambda>c. (c, Num (Fin (total (g c) / of_nat (observed (g c)))))) cs"
    by (auto simp: fit_imputer_column_def fitted_mean_def)
  with f n show ?thesis by simp
qed

text \<open>
  Claim C4. The fit of a mean imputer computes for each target column the arithmetic mean of
  the observed numeric values, the missing entries left out; apply replaces each missing entry
  of a target column with that mean and passes every other entry through.
\<close>

theorem mean_imputer_fit_and_apply:
  assumes "fit_transform (SimpleImputer cs Mean None) (Part D) = Inr T"
  shows "\<exists>fills. T = SimpleImputer cs Mean (Some fills)
      \<and> fills = map (\<lambda>c. (c, Num (Fin (sum_list (observed_numbers D c)
                                          / of_nat (length (observed_numbers D c)))))) cs
      \<and> (\<forall>c \<in> set cs. observed_numbers D c \<noteq> [])
      \<and> (\<forall>B. set cs \<subseteq> set (columns B) \<longrightarrow>
            apply_transform T B
            = Inr \<lparr>columns = columns B,
                   rows = map (\<lambda>r. map (\<lambda>(k, x).
                            if k \<in> set cs \<and> is_missing x
                            then Num (Fin (sum_list (observed_numbers D k)
                                           / of_nat (length (observed_numbers D k))))
                            else x) (zip (columns B) r)) (rows B)\<rparr>)"
proof -
  let ?g = "\<lambda>c. local_stats (column_values D c)"
  let ?mean = "\<lambda>c. Num (Fin (sum_list (observed_numbers D c) / of_nat (length (observed_numbers D c))))"
  from assms obtain fills where
    t: "traverse (fit_imputer_column Mean) (zip cs (map ?g cs)) = Inr fills"
    and T: "T = SimpleImputer cs Mean (Some fills)"
    by (auto simp: partition_stats_def column_values_def split: sum.splits option.splits)
  from fit_imputer_columns_mean[OF t]
  have fills: "fills = map (\<lambda>c. (c, ?mean c)) cs" and ne: "\<forall>c \<in> set cs. observed_numbers D c \<noteq> []"
    by (auto simp: local_stats_def observed_numbers_def)
  have ap: "apply_transform T B
            = Inr \<lparr>columns = columns B,
                   rows = map (\<lambda>r. map (\<lambda>(k, x). if k \<in> set cs \<and> is_missing x then ?mean k else x)
                                  (zip (columns B) r)) (rows B)\<rparr>"
    if "set cs \<subseteq> set (columns B)" for B
  proof -
    have "impute_row cs fills (columns B) r
        = map (\<lambda>(k, x). if k \<in> set cs \<and> is_missing x then ?mean k else x) (zip (columns B) r)" for r
      unfolding impute_row_def fills
      by (rule map_cong) (auto simp: map_of_map_key)
    then show ?thesis
      using that by (simp add: T apply_imputer_def first_absent_None[THEN iffD2])
  qed
  from T fills ne ap show ?thesis by blast
qed

theorem mean_imputer_trip_miles_witness:
  "fit_transform (SimpleImputer [''trip_miles''] Mean None) (Part data_example)
     = Inr (SimpleImputer [''trip_miles''] Mean (Some [(''trip_miles'', Num (Fin 3))]))
   \<and> observed_numbers data_example ''trip_miles'' = [2, 4]
   \<and> apply_transform (SimpleImputer [''trip_miles''] Mean (Some [(''trip_miles'', Num (Fin 3))]))
        missing_miles
       = Inr \<lparr>columns = [''trip_miles''], rows = [[Num (Fin 3)]]\<rparr>
   \<and> apply_transform (SimpleImputer [''trip_miles''] Mean (Some [(''trip_miles'', Num (Fin 3))]))
        data_example
       = Inr \<lparr>columns = [''trip_miles'', ''is_big_tip''],
              rows = [[Num (Fin 2), Bln True], [Num (Fin 3), Bln True], [Num (Fin 4), Bln False]]\<rparr>"
proof -
  let ?T = "SimpleImputer [''trip_miles''] Mean (Some [(''trip_miles'', Num (Fin 3))])"
  have f: "fit_transform (SimpleImputer [''trip_miles''] Mean None) (Part data_example) = Inr ?T"
    by (simp add: data_example_def partition_stats_def first_absent_def
        local_stats_def fit_imputer_column_def fitted_mean_def value_at_def List.map_filter_def)
  have o: "observed_numbers data_example ''trip_miles'' = [2, 4]"
    by (simp add: observed_numbers_def column_values_def data_example_def value_at_def
        List.map_filter_def)
  from mean_imputer_fit_and_apply[OF f] o
  have ap: "set [''trip_miles''] \<subseteq> set (columns B) \<Longrightarrow> apply_transform ?T B
            = Inr \<lparr>columns = columns B,
                   rows = map (\<lambda>r. map (\<lambda>(k, x).
                            if k \<in> set [''trip_miles''] \<and> is_missing x
                            then Num (Fin (sum_list (observed_numbers data_example k)
                                           / of_nat (length (observed_numbers data_example k))))
                            else x) (zip (columns B) r)) (rows B)\<rparr>" for B
    by blast
  have a1: "apply_transform ?T missing_miles = Inr \<lparr>columns = [''trip_miles''], rows = [[Num (Fin 3)]]\<rparr>"
    using ap[of missing_miles] o by (simp add: missing_miles_def is_missing_def)
  have a2: "apply_transform ?T data_example
       = Inr \<lparr>columns = [''trip_miles'', ''is_big_tip''],
              rows = [[Num (Fin 2), Bln True], [Num (Fin 3), Bln True], [Num (Fin 4), Bln False]]\<rparr>"
    using ap[of data_example] o by (simp add: data_example_def is_missing_def)
  from f o a1 a2 show ?thesis by blast
qed

subsection \<open>The categorical encoder\<close>

lemma rank_key_inj: "inj (\<lambda>v. (- int (count M v), v))"
  by (rule injI) simp

lemma ranked_categories_set [simp]: "set (ranked_categories M) = set_mset M"
  by (simp add: ranked_categories_def)

lemma ranked_categories_distinct [simp]: "distinct (ranked_categories M)"
  by (simp add: ranked_categories_def)

lemma ranked_categories_length: "length (ranked_categories M) = card (set_mset M)"
  by (metis distinct_card ranked_categories_distinct ranked_categories_set)

lemma ranked_categories_sorted: "sorted (map (\<lambda>v. (- int (count M v), v)) (ranked_categories M))"
  by (simp add: ranked_categories_def)

lemma ranked_categories_eqI:
  assumes "distinct ys" "set ys = set_mset M" "sorted (map (\<lambda>v. (- int (count M v), v)) ys)"
  shows "ranked_categories M = ys"
proof -
  let ?k = "\<lambda>v. (- int (count M v), v)"
  have "map ?k (ranked_categories M) = map ?k ys"
  proof (rule sorted_distinct_set_unique)
    show "sorted (map ?k (ranked_categories M))" by (rule ranked_categories_sorted)
    show "distinct (map ?k (ranked_categories M))"
      by (simp add: distinct_map inj_on_def)
    show "sorted (map ?k ys)" by (rule assms(3))
    show "distinct (map ?k ys)" using assms(1) by (simp add: distinct_map inj_on_def)
    show "set (map ?k (ranked_categories M)) = set (map ?k ys)" using assms(2) by simp
  qed
  then show ?thesis using rank_key_inj[of M] by (simp add: inj_map_eq_map)
qed

lemma ranked_categories_order:
  assumes "i < j" "j < length (ranked_categories M)"
  shows "count M (ranked_categories M ! j) \<le> count M (ranked_categories M ! i)"
proof -
  let ?k = "\<lambda>v. (- int (count M v), v)"
  have "map ?k (ranked_categories M) ! i \<le> map ?k (ranked_categories M) ! j"
    using ranked_categories_sorted[of M] assms by (simp add: sorted_iff_nth_mono)
  then show ?thesis using assms by (auto simp: less_eq_prod_def)
qed

lemma retained_categories_props:
  "distinct (retained_categories cap M)"
  "set (retained_categories cap M) \<subseteq> set_mset M"
  "length (retained_categories (Some k) M) = min k (card (set_mset M))"
  "retained_categories None M = ranked_categories M"
  by (auto simp: retained_categories_def ranked_categories_length min.commute
      split: option.splits dest: in_set_takeD)

lemma retained_categories_most_frequent:
  assumes "a \<in> set (retained_categories cap M)" "b \<in># M" "b \<notin> set (retained_categories cap M)"
  shows "count M b \<le> count M a"
proof (cases cap)
  case None
  with assms show ?thesis by (simp add: retained_categories_def)
next
  case (Some k)
  let ?r = "ranked_categories M"
  from assms(1) Some obtain i where i: "i < k" "i < length ?r" "a = ?r ! i"
    by (auto simp: retained_categories_def in_set_conv_nth)
  from assms(2) obtain j where j: "j < length ?r" "b = ?r ! j"
    by (metis in_set_conv_nth ranked_categories_set)
  have "\<not> j < k"
  proof
    assume "j < k"
    then have "?r ! j \<in> set (take k ?r)" using j(1) by (auto simp: in_set_conv_nth)
    with assms(3) Some j(2) show False by (simp add: retained_categories_def)
  qed
  then have "i < j" using i(1) by simp
  from ranked_categories_order[OF this j(1)] show ?thesis using i(3) j(2) by simp
qed

lemma indicators_other:
  "v \<notin> set kept \<Longrightarrow> indicators kept v = replicate (length kept) (Num (Fin 0)) @ [Num (Fin 1)]"
  by (auto simp: indicators_def indicator_def map_replicate_const[symmetric])

lemma fit_encoder_columns:
  assumes "traverse (fit_encoder_column caps) (zip cs (map g cs)) = Inr table"
  shows "table = map (\<lambda>c. (c, retained_categories (map_of caps c) (value_counts (g c)))) cs"
proof -
  from assms have a: "\<forall>c \<in> set cs. \<exists>y. fit_encoder_column caps (c, g c) = Inr y"
    and f: "table = map (\<lambda>c. projr (fit_encoder_column caps (c, g c))) cs"
    by (auto simp: traverse_Inr_iff zip_map_same comp_def)
  from a have "map (\<lambda>c. projr (fit_encoder_column caps (c, g c))) cs
      = map (\<lambda>c. (c, retained_categories (map_of caps c) (value_counts (g c)))) cs"
    by (auto simp: fit_encoder_column_def split: if_splits)
  with f show ?thesis by simp
qed

text \<open>
  Claim C3. The fit of the encoder retains, for each column, the most frequent observed
  categories up to the cap of the column: every category folded away is at most as frequent as
  every retained one. Apply never raises on a batch that carries the encoded columns, and a
  value that is not retained (unseen during fit or folded by the cap) gets the indicators: zero
  for every retained category, one for "other".
\<close>

theorem encoder_fit_and_apply:
  assumes "fit_transform (OneHotEncoder cs caps None) (Part D) = Inr T"
  shows "\<exists>table. T = OneHotEncoder cs caps (Some table)
      \<and> table = map (\<lambda>c. (c, retained_categories (map_of caps c) (category_counts D c))) cs
      \<and> (\<forall>c k. map_of caps c = Some k \<longrightarrow>
            length (retained_categories (map_of caps c) (category_counts D c))
            = min k (card (set_mset (category_counts D c))))
      \<and> (\<forall>c. distinct (retained_categories (map_of caps c) (category_counts D c))
            \<and> set (retained_categories (map_of caps c) (category_counts D c))
               \<subseteq> set_mset (category_counts D c))
      \<and> (\<forall>c a b. a \<in> set (retained_categories (map_of caps c) (category_counts D c))
            \<and> b \<in># category_counts D c
            \<and> b \<notin> set (retained_categories (map_of caps c) (category_counts D c))
            \<longrightarrow> count (category_counts D c) b \<le> count (category_counts D c) a)
      \<and> (\<forall>B. set cs \<subseteq> set (columns B) \<longrightarrow>
            apply_transform T B
            = Inr \<lparr>columns = encode_columns table (columns B),
                   rows = map (encode_row table (columns B)) (rows B)\<rparr>)
      \<and> (\<forall>kept v. v \<notin> set kept \<longrightarrow>
            indicators kept v = replicate (length kept) (Num (Fin 0)) @ [Num (Fin 1)])"
proof -
  let ?g = "\<lambda>c. local_stats (column_values D c)"
  let ?table = "map (\<lambda>c. (c, retained_categories (map_of caps c) (category_counts D c))) cs"
  from assms obtain table where
    t: "traverse (fit_encoder_column caps) (zip cs (map ?g cs)) = Inr table"
    and T: "T = OneHotEncoder cs caps (Some table)"
    by (auto simp: partition_stats_def column_values_def split: sum.splits option.splits)
  from fit_encoder_columns[OF t] have table: "table = ?table"
    by (simp add: local_stats_def category_counts_def)
  have ap: "apply_transform T B
            = Inr \<lparr>columns = encode_columns table (columns B),
                   rows = map (encode_row table (columns B)) (rows B)\<rparr>"
    if "set cs \<subseteq> set (columns B)" for B
  proof -
    have "map fst table = cs" by (simp add: table comp_def)
    then have "first_absent (cs @ map fst table) (columns B) = None"
      using that by (simp add: first_absent_None)
    then show ?thesis by (simp add: T apply_encoder_def)
  qed
  show ?thesis
    apply (rule exI[of _ table])
    apply (intro conjI allI impI)
    subgoal by (rule T)
    subgoal by (rule table)
    subgoal by (simp add: retained_categories_props(3))
    subgoal by (rule retained_categories_props(1))
    subgoal by (rule retained_categories_props(2))
    subgoal using retained_categories_most_frequent by blast
    subgoal by (rule ap)
    subgoal by (rule indicators_other)
    done
qed

lemma payments_column:
  "map (\<lambda>r. value_at (columns payments) r ''payment_type'') (rows payments)
   = replicate 100 (Str ''cash'') @ replicate 80 (Str ''card'') @ [Str ''check'']"
  by (simp add: payments_def value_at_def)

lemma payments_counts:
  "category_counts payments ''payment_type''
   = replicate_mset 100 (Str ''cash'') + replicate_mset 80 (Str ''card'') + {#Str ''check''#}"
  by (simp add: category_counts_def column_values_def payments_column is_missing_def)

lemma payments_ranked:
  "ranked_categories (category_counts payments ''payment_type'')
   = [Str ''cash'', Str ''card'', Str ''check'']"
  by (rule ranked_categories_eqI) (auto simp: payments_counts)

lemma payments_fit:
  "fit_transform (OneHotEncoder [''payment_type''] [(''payment_type'', 2)] None) (Part payments)
   = Inr (OneHotEncoder [''payment_type''] [(''payment_type'', 2)]
            (Some [(''payment_type'', [Str ''cash'', Str ''card''])]))"
proof -
  have cols: "columns payments = [''payment_type'']" by (simp add: payments_def)
  have c: "value_counts (local_stats (map (\<lambda>r. value_at [''payment_type''] r ''payment_type'') (rows payments)))
      = category_counts payments ''payment_type''"
    by (simp add: local_stats_def category_counts_def column_values_def cols)
  have "category_counts payments ''payment_type'' \<noteq> {#}" by (simp add: payments_counts)
  then show ?thesis
    by (simp add: partition_stats_def first_absent_def fit_encoder_column_def cols c
        retained_categories_def payments_ranked)
qed

theorem encoder_payment_type_witness:
  "fit_transform (OneHotEncoder [''payment_type''] [(''payment_type'', 2)] None) (Part payments)
     = Inr (OneHotEncoder [''payment_type''] [(''payment_type'', 2)]
              (Some [(''payment_type'', [Str ''cash'', Str ''card''])]))
   \<and> count (category_counts payments ''payment_type'') (Str ''cash'') = 100
   \<and> count (category_counts payments ''payment_type'') (Str ''card'') = 80
   \<and> count (category_counts payments ''payment_type'') (Str ''check'') = 1
   \<and> apply_transform (OneHotEncoder [''payment_type''] [(''payment_type'', 2)]
                         (Some [(''payment_type'', [Str ''cash'', Str ''card''])])) check_request
       = Inr \<lparr>columns = [''payment_type_cash'', ''payment_type_card'', ''payment_type_other''],
              rows = [[Num (Fin 0), Num (Fin 0), Num (Fin 1)]]\<rparr>"
proof -
  let ?T = "OneHotEncoder [''payment_type''] [(''payment_type'', 2)]
              (Some [(''payment_type'', [Str ''cash'', Str ''card''])])"
  note th = encoder_fit_and_apply[OF payments_fit]
  from th have ap: "set [''payment_type''] \<subseteq> set (columns B) \<Longrightarrow>
      apply_transform ?T B
      = Inr \<lparr>columns = encode_columns [(''payment_type'', [Str ''cash'', Str ''card''])] (columns B),
             rows = map (encode_row [(''payment_type'', [Str ''cash'', Str ''card''])] (columns B)) (rows B)\<rparr>"
    for B by blast
  from th have ind: "v \<notin> set kept \<Longrightarrow>
      indicators kept v = replicate (length kept) (Num (Fin 0)) @ [Num (Fin 1)]" for kept v
    by blast
  have "apply_transform ?T check_request
       = Inr \<lparr>columns = [''payment_type_cash'', ''payment_type_card'', ''payment_type_other''],
              rows = [[Num (Fin 0), Num (Fin 0), Num (Fin 1)]]\<rparr>"
    using ap[of check_request] ind[of "Str ''check''" "[Str ''cash'', Str ''card'']"]
    by (simp add: check_request_def encode_columns_def encode_row_def indicator_names_def
        value_at_def)
  then show ?thesis
    using payments_fit by (simp add: payments_counts)
qed

end
